theory Spec2Isabelle
  imports Complex_Main "HOL-Library.Option_ord" "HOL-Library.Product_Lexorder"
begin

section \<open>Parcel capacity model of what_could_have_been.py\<close>

text \<open>
  The script works on pandas data frames of Python floats. The embedding reads a float
  as an exact real number and a missing cell (NaN, None, an absent column read through
  \<^verbatim>\<open>row.get\<close>) as \<open>None\<close>; rounding, overflow and underflow of binary floating point are
  outside the model. A row of \<^verbatim>\<open>parcel_all\<close> is a record of the columns the per-row
  functions read.
\<close>

subsection \<open>Assumptions (constants of the script)\<close>

definition AVG_UNIT_SF :: real where
  "AVG_UNIT_SF = 800"

definition EFFICIENCY :: real where
  "EFFICIENCY = 85 / 100"

definition ACRE_SF :: real where
  "ACRE_SF = 43560"

definition FLOOR_HEIGHT_FT :: real where
  "FLOOR_HEIGHT_FT = 10"

definition UTILIZATION_THRESHOLD :: real where
  "UTILIZATION_THRESHOLD = 8 / 10"

record zone_entry =
  du_ac :: real
  far :: real

definition BASELINE_ZONING :: "string \<Rightarrow> zone_entry option" where
  "BASELINE_ZONING = map_of
     [(''RH-1'', \<lparr>du_ac = 30, far = 15 / 10\<rparr>),
      (''RH-2'', \<lparr>du_ac = 45, far = 18 / 10\<rparr>),
      (''RH-3'', \<lparr>du_ac = 60, far = 2\<rparr>),
      (''RM-1'', \<lparr>du_ac = 90, far = 25 / 10\<rparr>),
      (''RM-2'', \<lparr>du_ac = 120, far = 3\<rparr>),
      (''RM-3'', \<lparr>du_ac = 150, far = 35 / 10\<rparr>)]"

definition FEASIBILITY_LANDMARK :: real where
  "FEASIBILITY_LANDMARK = 2 / 100"

definition FEASIBILITY_INDIVIDUAL_HISTORIC :: real where
  "FEASIBILITY_INDIVIDUAL_HISTORIC = 10 / 100"

definition FEASIBILITY_HISTORIC_DISTRICT :: real where
  "FEASIBILITY_HISTORIC_DISTRICT = 15 / 100"

definition FEASIBILITY_SURVEYED :: real where
  "FEASIBILITY_SURVEYED = 18 / 100"

definition FEASIBILITY_STEEP_SLOPE :: real where
  "FEASIBILITY_STEEP_SLOPE = 12 / 100"

definition FEASIBILITY_MODERATE_SLOPE :: real where
  "FEASIBILITY_MODERATE_SLOPE = 18 / 100"

definition FEASIBILITY_SMALL_LOT :: real where
  "FEASIBILITY_SMALL_LOT = 15 / 100"

definition FEASIBILITY_TIER1 :: real where
  "FEASIBILITY_TIER1 = 25 / 100"

definition FEASIBILITY_DEFAULT :: real where
  "FEASIBILITY_DEFAULT = 20 / 100"

subsection \<open>Rows of the merged parcel frame\<close>

text \<open>
  \<open>num_buildings\<close> is \<open>None\<close> when the column does not exist (no footprint file was
  loaded); otherwise it is the footprint count, missing counts already filled with 0.
  \<open>existing_far\<close> is the column computed as built area over parcel area.
\<close>

record row =
  zoning :: "string option"
  parcel_area_sf :: real
  gen_hght :: "real option"
  TZ :: "string option"
  MaxDensity :: "real option"
  FloorAreaRatio :: "real option"
  is_steep_slope :: bool
  is_moderate_slope :: bool
  historic_type :: "string option"
  num_buildings :: "nat option"
  existing_far :: real

subsection \<open>Helpers\<close>

text \<open>Python's two-argument \<^verbatim>\<open>min\<close> keeps its first argument unless the second is smaller.\<close>

definition py_min :: "real \<Rightarrow> real \<Rightarrow> real" where
  "py_min a b = (if b < a then b else a)"

definition units_allowed :: "real \<Rightarrow> real \<Rightarrow> real \<Rightarrow> real" where
  "units_allowed area_sf du far_v =
     (let by_density = du * (area_sf / ACRE_SF);
          by_far = (area_sf * far_v * EFFICIENCY) / AVG_UNIT_SF
      in py_min by_density by_far)"

text \<open>\<^verbatim>\<open>Series.clip(lower=..)\<close> and \<^verbatim>\<open>Series.clip(upper=..)\<close>, on one cell.\<close>

definition clip_lower :: "real \<Rightarrow> real \<Rightarrow> real" where
  "clip_lower lo x = (if x < lo then lo else x)"

definition clip_upper :: "real \<Rightarrow> real \<Rightarrow> real" where
  "clip_upper hi x = (if hi < x then hi else x)"

subsection \<open>Baseline capacity\<close>

text \<open>
  The height-derived FAR computed at the head of \<^verbatim>\<open>baseline_units\<close>: the height limit
  of the height district in feet, special codes from 1000 up read as 400 ft, ten feet per
  floor, lot coverage 0.8; 2.0 without usable height data.
\<close>

definition height_based_far :: "real option \<Rightarrow> real" where
  "height_based_far height_opt =
     (case height_opt of
        Some height_ft \<Rightarrow>
          if 0 < height_ft then
            (let height_ft' = (if 1000 \<le> height_ft then 400 else height_ft);
                 max_floors = height_ft' / FLOOR_HEIGHT_FT
             in max_floors * (8 / 10))
          else 2
      | None \<Rightarrow> 2)"

text \<open>\<^verbatim>\<open>zone in BASELINE_ZONING\<close> followed by \<^verbatim>\<open>BASELINE_ZONING[zone]\<close>; a missing zoning
  code is in no table.\<close>

definition zone_lookup :: "string option \<Rightarrow> zone_entry option" where
  "zone_lookup zone = (case zone of None \<Rightarrow> None | Some z \<Rightarrow> BASELINE_ZONING z)"

text \<open>
  The three \<^verbatim>\<open>return\<close> statements of \<^verbatim>\<open>baseline_units\<close>, in order. The function is
  modelled with the return statement it leaves through, so that reachability of each one
  can be stated; \<open>baseline_units\<close> is the value alone. The test
  \<^verbatim>\<open>if height_based_far:\<close> is Python truthiness of a float: non-zero. Read exactly,
  the height-derived FAR of a positive height is never zero; in the script's floats it is
  0.0 for a positive height small enough for the quotient by 10.0 to underflow. What is
  stated below about the return taken is stated for heights where the two readings agree.
\<close>

datatype baseline_return = Zoning_Table | Height_Only | Final_Fallback

definition baseline_units_traced :: "row \<Rightarrow> baseline_return \<times> real" where
  "baseline_units_traced r =
     (let area_sf = parcel_area_sf r;
          hbf = height_based_far (gen_hght r)
      in case zone_lookup (zoning r) of
           Some z \<Rightarrow>
             (let effective_far = (if hbf < far z then hbf else far z)
              in (Zoning_Table, units_allowed area_sf (du_ac z) effective_far))
         | None \<Rightarrow>
             if hbf \<noteq> 0 then (Height_Only, units_allowed area_sf 100 hbf)
             else (Final_Fallback, 0))"

definition baseline_units :: "row \<Rightarrow> real" where
  "baseline_units r = snd (baseline_units_traced r)"

text \<open>The claimed baseline rule, written from the specification's sentence.\<close>

definition height_derived_far_spec :: "real option \<Rightarrow> real" where
  "height_derived_far_spec height_opt =
     (case height_opt of
        None \<Rightarrow> 2
      | Some h \<Rightarrow> if h \<le> 0 then 2 else (if 1000 \<le> h then 400 else h) / 10 * (8 / 10))"

definition baseline_units_spec :: "row \<Rightarrow> real" where
  "baseline_units_spec r =
     (case zoning r of
        None \<Rightarrow> units_allowed (parcel_area_sf r) 100 (height_derived_far_spec (gen_hght r))
      | Some code \<Rightarrow>
          (case BASELINE_ZONING code of
             None \<Rightarrow> units_allowed (parcel_area_sf r) 100 (height_derived_far_spec (gen_hght r))
           | Some e \<Rightarrow>
               units_allowed (parcel_area_sf r) (du_ac e)
                 (min (far e) (height_derived_far_spec (gen_hght r)))))"

subsection \<open>Upzoned capacity and added capacity\<close>

definition sb79_units :: "row \<Rightarrow> real" where
  "sb79_units r =
     (case MaxDensity r of
        None \<Rightarrow> 0
      | Some d \<Rightarrow>
          (case FloorAreaRatio r of
             None \<Rightarrow> 0
           | Some f \<Rightarrow> units_allowed (parcel_area_sf r) d f))"

text \<open>The column expression \<^verbatim>\<open>(sb79_units - baseline_units).clip(lower=0)\<close> on one pair of
  cells, and on the row the two cells were computed from.\<close>

definition added_units_theoretical :: "real \<Rightarrow> real \<Rightarrow> real" where
  "added_units_theoretical sb79 baseline = clip_lower 0 (sb79 - baseline)"

definition row_added_units_theoretical :: "row \<Rightarrow> real" where
  "row_added_units_theoretical r = added_units_theoretical (sb79_units r) (baseline_units r)"

subsection \<open>Feasibility factor\<close>

text \<open>\<^verbatim>\<open>row.get("num_buildings", 0) > 0\<close>: an absent column counts as no building.\<close>

definition has_buildings :: "row \<Rightarrow> bool" where
  "has_buildings r = (0 < (case num_buildings r of None \<Rightarrow> 0 | Some n \<Rightarrow> n))"

definition feasibility :: "row \<Rightarrow> real" where
  "feasibility r =
     (if historic_type r = Some ''landmark'' then FEASIBILITY_LANDMARK
      else if historic_type r = Some ''individual'' then FEASIBILITY_INDIVIDUAL_HISTORIC
      else if historic_type r = Some ''district'' then FEASIBILITY_HISTORIC_DISTRICT
      else if historic_type r = Some ''surveyed'' then FEASIBILITY_SURVEYED
      else if is_steep_slope r \<and> \<not> has_buildings r then FEASIBILITY_STEEP_SLOPE
      else if is_moderate_slope r \<and> \<not> has_buildings r then FEASIBILITY_MODERATE_SLOPE
      else if parcel_area_sf r < 2500 then FEASIBILITY_SMALL_LOT
      else if TZ r = Some ''T1Z1'' \<or> TZ r = Some ''T1Z2'' then FEASIBILITY_TIER1
      else FEASIBILITY_DEFAULT)"

text \<open>
  The ordered decision table of the specification: a list of rules, each a condition on
  the parcel and the factor it assigns, read front to back; \<open>first_match\<close> returns the
  factor of the first rule whose condition holds and the default when none does. The
  building count of a parcel without footprint data is 0.
\<close>

definition building_count :: "row \<Rightarrow> nat" where
  "building_count r = (case num_buildings r of None \<Rightarrow> 0 | Some n \<Rightarrow> n)"

definition feasibility_table :: "((row \<Rightarrow> bool) \<times> real) list" where
  "feasibility_table =
     [(\<lambda>r. historic_type r = Some ''landmark'', 2 / 100),
      (\<lambda>r. historic_type r = Some ''individual'', 10 / 100),
      (\<lambda>r. historic_type r = Some ''district'', 15 / 100),
      (\<lambda>r. historic_type r = Some ''surveyed'', 18 / 100),
      (\<lambda>r. is_steep_slope r \<and> building_count r = 0, 12 / 100),
      (\<lambda>r. is_moderate_slope r \<and> building_count r = 0, 18 / 100),
      (\<lambda>r. parcel_area_sf r < 2500, 15 / 100),
      (\<lambda>r. TZ r \<in> {Some ''T1Z1'', Some ''T1Z2''}, 25 / 100)]"

fun first_match :: "((row \<Rightarrow> bool) \<times> real) list \<Rightarrow> real \<Rightarrow> row \<Rightarrow> real" where
  "first_match [] dflt r = dflt"
| "first_match ((cond, factor) # rules) dflt r =
     (if cond r then factor else first_match rules dflt r)"

subsection \<open>Historic classification\<close>

definition DISTRICT_HISTORIC_LAYERS :: "string set" where
  "DISTRICT_HISTORIC_LAYERS =
     {''national_register'', ''california_register'', ''article10_districts'',
      ''article11_districts''}"

definition SURVEYED_HISTORIC_LAYERS :: "string set" where
  "SURVEYED_HISTORIC_LAYERS = {''historic_survey''}"

text \<open>The aggregation \<^verbatim>\<open>set(x.dropna())\<close> over the \<^verbatim>\<open>historic_layer\<close> cells of one parcel's
  join rows.\<close>

fun dropna :: "'a option list \<Rightarrow> 'a list" where
  "dropna [] = []"
| "dropna (None # cells) = dropna cells"
| "dropna (Some v # cells) = v # dropna cells"

definition historic_layers :: "string option list \<Rightarrow> string set" where
  "historic_layers cells = set (dropna cells)"

definition classify_historic_type :: "string set \<Rightarrow> string option" where
  "classify_historic_type layers =
     (if layers = {} then None
      else if ''landmarks'' \<in> layers then Some ''landmark''
      else if ''historic_resources'' \<in> layers then Some ''individual''
      else if layers \<inter> DISTRICT_HISTORIC_LAYERS \<noteq> {} then Some ''district''
      else if layers \<inter> SURVEYED_HISTORIC_LAYERS \<noteq> {} then Some ''surveyed''
      else None)"

subsection \<open>Utilization against the upzoned FAR\<close>

text \<open>
  The per-row function, the \<^verbatim>\<open>clip(upper=2.0)\<close> on its column and the flag derived
  from it. Without a footprint file the script sets the existing FAR and the utilization
  of every row to 0 and the flag to false, which is what these functions give at an
  existing FAR of 0.
\<close>

definition get_sb79_utilization :: "row \<Rightarrow> real" where
  "get_sb79_utilization r =
     (let existing = existing_far r
      in if existing = 0 then 0
         else (case FloorAreaRatio r of
                 Some sb79_far \<Rightarrow> if 0 < sb79_far then existing / sb79_far else 0
               | None \<Rightarrow> 0))"

definition utilization :: "row \<Rightarrow> real" where
  "utilization r = clip_upper 2 (get_sb79_utilization r)"

definition is_highly_utilized :: "row \<Rightarrow> bool" where
  "is_highly_utilized r = (UTILIZATION_THRESHOLD < utilization r)"

text \<open>The exclusion \<^verbatim>\<open>parcel_all[~parcel_all["is_highly_utilized"]]\<close>.\<close>

definition exclude_highly_utilized :: "row list \<Rightarrow> row list" where
  "exclude_highly_utilized rows = filter (\<lambda>r. \<not> is_highly_utilized r) rows"

subsection \<open>Transit-tier join: most permissive match per parcel\<close>

text \<open>
  A row of the left spatial join of parcel polygons with SB79 tier polygons: the parcel id
  and the tier attributes of one intersecting polygon, all of them missing on the single
  row of a parcel that intersects no tier polygon. Only the columns the sort and the
  de-duplication read are kept, with the tier code that marks a real match. The sort runs
  on the density and FAR cells as the layer delivers them, so the type \<open>'a\<close> of a cell
  is any linearly ordered type; for numeric attributes it is \<open>real\<close>.
\<close>

record 'a sb79_match =
  parcel_id :: nat
  match_TZ :: "string option"
  match_MaxDensity :: "'a option"
  match_FloorAreaRatio :: "'a option"

text \<open>
  \<^verbatim>\<open>sort_values(by=["MaxDensity", "FloorAreaRatio"], ascending=False, na_position="last")\<close>
  orders rows by the pair of cells, larger first, a missing cell after every number in
  its column, and keeps the input order of rows with equal pairs. On \<open>'a option\<close> the
  order of the library puts \<open>None\<close> below every \<open>Some x\<close>, and pairs are compared
  lexicographically, so the frame is sorted downwards in that order. The sort is an
  insertion sort; an earlier row is placed in front of later rows with the same key.
\<close>

definition permissive_key :: "'a sb79_match \<Rightarrow> 'a option \<times> 'a option" where
  "permissive_key m = (match_MaxDensity m, match_FloorAreaRatio m)"

fun insert_desc ::
  "('a::linorder) sb79_match \<Rightarrow> 'a sb79_match list \<Rightarrow> 'a sb79_match list" where
  "insert_desc x [] = [x]"
| "insert_desc x (y # ys) =
     (if permissive_key x < permissive_key y then y # insert_desc x ys else x # y # ys)"

fun sort_values :: "('a::linorder) sb79_match list \<Rightarrow> 'a sb79_match list" where
  "sort_values [] = []"
| "sort_values (x # xs) = insert_desc x (sort_values xs)"

text \<open>\<^verbatim>\<open>drop_duplicates("parcel_id")\<close> keeps the first row of each parcel id, in frame
  order; \<open>seen\<close> holds the ids already kept.\<close>

fun drop_duplicates_seen :: "nat list \<Rightarrow> 'a sb79_match list \<Rightarrow> 'a sb79_match list" where
  "drop_duplicates_seen seen [] = []"
| "drop_duplicates_seen seen (x # xs) =
     (if parcel_id x \<in> set seen then drop_duplicates_seen seen xs
      else x # drop_duplicates_seen (parcel_id x # seen) xs)"

definition drop_duplicates :: "'a sb79_match list \<Rightarrow> 'a sb79_match list" where
  "drop_duplicates xs = drop_duplicates_seen [] xs"

definition parcel_sb79 :: "('a::linorder) sb79_match list \<Rightarrow> 'a sb79_match list" where
  "parcel_sb79 joined = drop_duplicates (sort_values joined)"

subsection \<open>Building heights\<close>

text \<open>
  A cell of a footprint attribute column as read from the file: a number, a text, or
  nothing. \<^verbatim>\<open>pd.to_numeric(.., errors="coerce")\<close> keeps numbers, turns a missing cell
  into NaN and reads a text as a number where pandas can parse it, NaN otherwise; the
  parser of texts is a parameter. The footprint frame is its row count and its columns by
  name.
\<close>

datatype cell = Number real | Text string | Missing

record buildings_frame =
  nrows :: nat
  columns :: "string \<Rightarrow> cell list option"

definition to_numeric_coerce :: "(string \<Rightarrow> real option) \<Rightarrow> cell \<Rightarrow> real option" where
  "to_numeric_coerce parse c =
     (case c of Number x \<Rightarrow> Some x | Text s \<Rightarrow> parse s | Missing \<Rightarrow> None)"

definition fillna :: "real \<Rightarrow> real option \<Rightarrow> real" where
  "fillna dflt v = (case v of None \<Rightarrow> dflt | Some x \<Rightarrow> x)"

text \<open>The \<^verbatim>\<open>height_m\<close> column after the \<^verbatim>\<open>if/elif/else\<close> on the column names and the
  \<^verbatim>\<open>fillna(6.0)\<close> that follows it.\<close>

definition height_m :: "(string \<Rightarrow> real option) \<Rightarrow> buildings_frame \<Rightarrow> real list" where
  "height_m parse buildings =
     (let col =
        (case columns buildings ''hgt_median_m'' of
           Some m \<Rightarrow> map (to_numeric_coerce parse) m
         | None \<Rightarrow>
             (case columns buildings ''hgt_mediancm'' of
                Some cm \<Rightarrow>
                  map (\<lambda>c. map_option (\<lambda>x. x / 100) (to_numeric_coerce parse c)) cm
              | None \<Rightarrow> replicate (nrows buildings) (Some 6)))
      in map (fillna 6) col)"

subsection \<open>Example data\<close>

text \<open>
  The end-to-end example of the specification: 4,000 sq ft in RH-2, no height data, a
  tier with density 80 and FAR 3.0 that is not a tier-1 zone, one building, existing FAR
  0.5.
\<close>

definition parcel_in_tier :: row where
  "parcel_in_tier =
     \<lparr>zoning = Some ''RH-2'', parcel_area_sf = 4000, gen_hght = None,
      TZ = Some ''T2Z1'', MaxDensity = Some 80, FloorAreaRatio = Some 3,
      is_steep_slope = False, is_moderate_slope = False, historic_type = None,
      num_buildings = Some 1, existing_far = 1 / 2\<rparr>"

text \<open>A steep, heavily built 3,000 sq ft parcel in a zone outside the baseline table,
  40 ft height district, outside every tier polygon.\<close>

definition parcel_outside_tier :: row where
  "parcel_outside_tier =
     \<lparr>zoning = Some ''NC-2'', parcel_area_sf = 3000, gen_hght = Some 40,
      TZ = None, MaxDensity = None, FloorAreaRatio = None,
      is_steep_slope = True, is_moderate_slope = False, historic_type = None,
      num_buildings = Some 2, existing_far = 5\<rparr>"

text \<open>Parcel 0 meets four tier polygons, one of them without a density; parcel 1
  meets none.\<close>

definition joined_example :: "real sb79_match list" where
  "joined_example =
     [\<lparr>parcel_id = 0, match_TZ = Some ''T2Z1'', match_MaxDensity = Some 80,
       match_FloorAreaRatio = Some 3\<rparr>,
      \<lparr>parcel_id = 0, match_TZ = Some ''T1Z1'', match_MaxDensity = Some 120,
       match_FloorAreaRatio = Some (35 / 10)\<rparr>,
      \<lparr>parcel_id = 1, match_TZ = None, match_MaxDensity = None,
       match_FloorAreaRatio = None\<rparr>,
      \<lparr>parcel_id = 0, match_TZ = Some ''T1Z2'', match_MaxDensity = Some 120,
       match_FloorAreaRatio = Some 4\<rparr>,
      \<lparr>parcel_id = 0, match_TZ = Some ''T3Z9'', match_MaxDensity = None,
       match_FloorAreaRatio = Some 9\<rparr>]"

text \<open>Three footprints with both height columns; the second and third have no usable
  height in metres.\<close>

definition footprints_example :: buildings_frame where
  "footprints_example =
     \<lparr>nrows = 3,
      columns = [''hgt_median_m'' \<mapsto> [Number 9, Missing, Text ''n/a''],
                 ''hgt_mediancm'' \<mapsto> [Number 900, Number 1200, Number 1500]]\<rparr>"

section \<open>Properties\<close>

subsection \<open>Capacity model\<close>

lemma py_min_eq_min: "py_min a b = min a b"
  by (simp add: py_min_def min_def)

text \<open>
  C1: for every parcel area, density and FAR, \<open>units_allowed\<close> is the smaller of the
  density cap \<open>density * area / 43560\<close> and the floor-area cap
  \<open>area * FAR * 0.85 / 800\<close>. At \<open>(5000, 30, 1.5)\<close> the result is the density cap
  \<open>30 * 5000 / 43560\<close> (3.44 to two decimals), strictly below the floor-area cap
  \<open>5000 * 1.5 * 0.85 / 800\<close> (7.97 to two decimals).
\<close>

theorem units_allowed_formula:
  "units_allowed area density far_v
     = min (density * area / 43560) (area * far_v * (85 / 100) / 800)
   \<and> units_allowed 5000 30 (15 / 10) = 30 * 5000 / 43560
   \<and> (30 * 5000 / 43560 :: real) < 5000 * (15 / 10) * (85 / 100) / 800
   \<and> \<bar>units_allowed 5000 30 (15 / 10) - 344 / 100\<bar> < 1 / 200
   \<and> \<bar>(5000 * (15 / 10) * (85 / 100) / 800 :: real) - 797 / 100\<bar> < 1 / 200"
  by (simp add: units_allowed_def py_min_eq_min ACRE_SF_def EFFICIENCY_def AVG_UNIT_SF_def
      Let_def min_def)

lemma height_based_far_eq_spec: "height_based_far h = height_derived_far_spec h"
  by (simp add: height_based_far_def height_derived_far_spec_def FLOOR_HEIGHT_FT_def Let_def
      split: option.splits)

lemma height_based_far_pos: "0 < height_based_far h"
  by (simp add: height_based_far_def FLOOR_HEIGHT_FT_def Let_def split: option.splits)



text \<open>
  C2: for every parcel row, the height-derived FAR is \<open>(height / 10) * 0.8\<close> with a
  height of 1000 or more first replaced by 400, and 2.0 when the height is missing or not
  positive; \<open>baseline_units\<close> is \<open>units_allowed\<close> of the area with the table's density
  and the smaller of the table's FAR and the height-derived FAR when the zoning code is in
  the baseline table, and with 100 units per acre and the height-derived FAR when it is
  not. On the example parcel (RH-2, 4,000 sq ft, no height data) this is
  \<open>45 * 4000 / 43560\<close>.
\<close>

theorem baseline_units_rule:
  "height_based_far h = height_derived_far_spec h
   \<and> baseline_units r = baseline_units_spec r
   \<and> baseline_units parcel_in_tier = 45 * 4000 / 43560"
proof -
  have nz: "height_derived_far_spec (gen_hght r) \<noteq> 0"
    using height_based_far_pos [of "gen_hght r"] by (simp add: height_based_far_eq_spec)
  have rule: "baseline_units r = baseline_units_spec r"
    using nz
    by (simp add: baseline_units_def baseline_units_traced_def baseline_units_spec_def
        zone_lookup_def height_based_far_eq_spec Let_def min_def split: option.splits)
  have ex: "baseline_units parcel_in_tier = 45 * 4000 / 43560"
    by (simp add: baseline_units_def baseline_units_traced_def parcel_in_tier_def
        zone_lookup_def BASELINE_ZONING_def height_based_far_def units_allowed_def py_min_def
        ACRE_SF_def EFFICIENCY_def AVG_UNIT_SF_def Let_def)
  from height_based_far_eq_spec rule ex show ?thesis
    by blast
qed

text \<open>
  C7: for every pair of upzoned and baseline unit counts, the theoretical added units are
  \<open>max 0 (upzoned - baseline)\<close>, hence never negative; at upzoned 0 and baseline 10 they
  are 0. The same holds for the two counts computed from any parcel row.
\<close>

theorem added_units_nonneg:
  "added_units_theoretical upzoned baseline = max 0 (upzoned - baseline)
   \<and> 0 \<le> added_units_theoretical upzoned baseline
   \<and> added_units_theoretical 0 10 = 0
   \<and> row_added_units_theoretical r = max 0 (sb79_units r - baseline_units r)
   \<and> 0 \<le> row_added_units_theoretical r"
  by (simp add: added_units_theoretical_def row_added_units_theoretical_def clip_lower_def
      max_def)




subsection \<open>Feasibility scorer\<close>

lemma has_buildings_iff: "has_buildings r \<longleftrightarrow> building_count r \<noteq> 0"
  by (simp add: has_buildings_def building_count_def split: option.splits)

lemma feasibility_first_match: "feasibility r = first_match feasibility_table (20 / 100) r"
  by (simp add: feasibility_def feasibility_table_def has_buildings_iff
      FEASIBILITY_LANDMARK_def FEASIBILITY_INDIVIDUAL_HISTORIC_def
      FEASIBILITY_HISTORIC_DISTRICT_def FEASIBILITY_SURVEYED_def FEASIBILITY_STEEP_SLOPE_def
      FEASIBILITY_MODERATE_SLOPE_def FEASIBILITY_SMALL_LOT_def FEASIBILITY_TIER1_def
      FEASIBILITY_DEFAULT_def)

text \<open>
  C3: for every parcel, \<open>feasibility\<close> is the factor of the first matching rule of the
  ordered table (landmark 0.02, individual 0.10, district 0.15, surveyed 0.18, steep slope
  with no building 0.12, moderate slope with no building 0.18, area below 2500 sq ft 0.15,
  tier code T1Z1 or T1Z2 0.25) and 0.20 when no rule matches. A steep-slope parcel whose
  historic type is none of the four gets 0.12 with \<open>num_buildings = 0\<close>; the same parcel
  with \<open>num_buildings = 1\<close> does not get 0.12: its factor is that of the rules after the
  two slope rules (small lot, tier 1, default).
\<close>

theorem feasibility_ordered_rules:
  "feasibility r = first_match feasibility_table (20 / 100) r
   \<and> (historic_type r
         \<notin> {Some ''landmark'', Some ''individual'', Some ''district'', Some ''surveyed''}
        \<and> is_steep_slope r \<longrightarrow>
          feasibility (r\<lparr>num_buildings := Some 0\<rparr>) = 12 / 100
        \<and> feasibility (r\<lparr>num_buildings := Some 1\<rparr>) \<noteq> 12 / 100
        \<and> feasibility (r\<lparr>num_buildings := Some 1\<rparr>)
            = first_match (drop 6 feasibility_table) (20 / 100) r)"
proof (intro conjI impI)
  show "feasibility r = first_match feasibility_table (20 / 100) r"
    by (rule feasibility_first_match)
next
  assume a: "historic_type r
      \<notin> {Some ''landmark'', Some ''individual'', Some ''district'', Some ''surveyed''}
      \<and> is_steep_slope r"
  have vacant: "building_count (r\<lparr>num_buildings := Some 0\<rparr>) = 0"
    and built: "building_count (r\<lparr>num_buildings := Some 1\<rparr>) = 1"
    by (simp_all add: building_count_def)
  show "feasibility (r\<lparr>num_buildings := Some 0\<rparr>) = 12 / 100"
    using a vacant by (simp add: feasibility_first_match feasibility_table_def)
  show tail: "feasibility (r\<lparr>num_buildings := Some 1\<rparr>)
      = first_match (drop 6 feasibility_table) (20 / 100) r"
    using a built by (simp add: feasibility_first_match feasibility_table_def)
  show "feasibility (r\<lparr>num_buildings := Some 1\<rparr>) \<noteq> 12 / 100"
    unfolding tail by (simp add: feasibility_table_def)
qed

theorem feasibility_ordered_rules_witness:
  "historic_type parcel_outside_tier
     \<notin> {Some ''landmark'', Some ''individual'', Some ''district'', Some ''surveyed''}
   \<and> is_steep_slope parcel_outside_tier
   \<and> feasibility (parcel_outside_tier\<lparr>num_buildings := Some 0\<rparr>) = 12 / 100
   \<and> feasibility (parcel_outside_tier\<lparr>num_buildings := Some 1\<rparr>) = 20 / 100"
proof -
  have h: "historic_type parcel_outside_tier
     \<notin> {Some ''landmark'', Some ''individual'', Some ''district'', Some ''surveyed''}
     \<and> is_steep_slope parcel_outside_tier"
    by (simp add: parcel_outside_tier_def)
  have tail: "first_match (drop 6 feasibility_table) (20 / 100) parcel_outside_tier = 20 / 100"
    by (simp add: feasibility_table_def parcel_outside_tier_def)
  from feasibility_ordered_rules [of parcel_outside_tier] h tail show ?thesis
    by simp
qed

text \<open>
  C8: for every parcel row the scorer returns a factor, and the factor is strictly greater
  than 0 and at most 1; it is one of the nine constants of the script (seven distinct
  values), so the default branch included.
\<close>

theorem feasibility_in_unit_interval:
  "0 < feasibility r \<and> feasibility r \<le> 1
   \<and> feasibility r \<in> {2 / 100, 10 / 100, 15 / 100, 18 / 100, 12 / 100, 25 / 100, 20 / 100}"
  by (simp add: feasibility_def
      FEASIBILITY_LANDMARK_def FEASIBILITY_INDIVIDUAL_HISTORIC_def
      FEASIBILITY_HISTORIC_DISTRICT_def FEASIBILITY_SURVEYED_def FEASIBILITY_STEEP_SLOPE_def
      FEASIBILITY_MODERATE_SLOPE_def FEASIBILITY_SMALL_LOT_def FEASIBILITY_TIER1_def
      FEASIBILITY_DEFAULT_def)

subsection \<open>Historic classification\<close>

lemma set_dropna: "set (dropna cells) = {v. Some v \<in> set cells}"
  by (induction cells rule: dropna.induct) auto

lemma historic_layers_mem: "l \<in> historic_layers cells \<longleftrightarrow> Some l \<in> set cells"
  by (simp add: historic_layers_def set_dropna)

text \<open>
  C4: for every set of intersected historic-layer names, the classification is
  \<open>landmark\<close> if the landmarks layer is in the set; else \<open>individual\<close> if the
  historic-resources layer is; else \<open>district\<close> if the national-register,
  california-register, article-10 or article-11 district layer is; else \<open>surveyed\<close> if
  the survey layer is; else null. A parcel whose join rows name both the landmarks layer
  and the survey layer classifies as \<open>landmark\<close>.
\<close>

theorem classify_historic_priority:
  "classify_historic_type layers =
     (if ''landmarks'' \<in> layers then Some ''landmark''
      else if ''historic_resources'' \<in> layers then Some ''individual''
      else if ''national_register'' \<in> layers \<or> ''california_register'' \<in> layers
              \<or> ''article10_districts'' \<in> layers \<or> ''article11_districts'' \<in> layers
        then Some ''district''
      else if ''historic_survey'' \<in> layers then Some ''surveyed''
      else None)
   \<and> (Some ''landmarks'' \<in> set cells \<and> Some ''historic_survey'' \<in> set cells \<longrightarrow>
        classify_historic_type (historic_layers cells) = Some ''landmark'')"
  by (auto simp: classify_historic_type_def DISTRICT_HISTORIC_LAYERS_def
      SURVEYED_HISTORIC_LAYERS_def historic_layers_mem)

theorem classify_historic_priority_witness:
  "Some ''landmarks'' \<in> set [Some ''historic_survey'', None, Some ''landmarks'']
   \<and> Some ''historic_survey'' \<in> set [Some ''historic_survey'', None, Some ''landmarks'']
   \<and> classify_historic_type
        (historic_layers [Some ''historic_survey'', None, Some ''landmarks''])
       = Some ''landmark''
   \<and> classify_historic_type {''historic_survey'', ''article10_districts''} = Some ''district''"
proof -
  have h: "Some ''landmarks'' \<in> set [Some ''historic_survey'', None, Some ''landmarks'']
     \<and> Some ''historic_survey'' \<in> set [Some ''historic_survey'', None, Some ''landmarks'']"
    by simp
  from classify_historic_priority
         [of "{''historic_survey'', ''article10_districts''}"
             "[Some ''historic_survey'', None, Some ''landmarks'']"] h
  show ?thesis
    by simp
qed

subsection \<open>Utilization\<close>

text \<open>
  C6: for every parcel row with a tier FAR greater than 0, \<open>utilization\<close> is the
  existing FAR over the tier FAR, capped at 2.0. For every parcel row whose tier FAR is
  missing (the parcel lies in no tier polygon) or not positive, \<open>utilization\<close> is 0
  whatever the existing FAR, the row is not flagged as highly utilized (utilization above
  0.8), and the utilization exclusion keeps it.
\<close>

theorem utilization_rule:
  "(FloorAreaRatio r = Some f \<and> 0 < f \<longrightarrow> utilization r = min (existing_far r / f) 2)
   \<and> (FloorAreaRatio q = None \<or> (FloorAreaRatio q = Some g \<and> g \<le> 0) \<longrightarrow>
         utilization q = 0 \<and> \<not> is_highly_utilized q
         \<and> (q \<in> set rows \<longrightarrow> q \<in> set (exclude_highly_utilized rows)))"
  by (auto simp: utilization_def get_sb79_utilization_def clip_upper_def is_highly_utilized_def
      exclude_highly_utilized_def UTILIZATION_THRESHOLD_def Let_def min_def
      split: option.splits)

theorem utilization_rule_witness:
  "FloorAreaRatio parcel_in_tier = Some 3 \<and> (0::real) < 3
   \<and> utilization parcel_in_tier = 1 / 6
   \<and> FloorAreaRatio parcel_outside_tier = None
   \<and> existing_far parcel_outside_tier = 5
   \<and> utilization parcel_outside_tier = 0
   \<and> \<not> is_highly_utilized parcel_outside_tier
   \<and> parcel_outside_tier \<in> set [parcel_in_tier, parcel_outside_tier]
   \<and> parcel_outside_tier
       \<in> set (exclude_highly_utilized [parcel_in_tier, parcel_outside_tier])"
proof -
  have a: "FloorAreaRatio parcel_in_tier = Some 3 \<and> (0::real) < 3"
    by (simp add: parcel_in_tier_def)
  have b: "FloorAreaRatio parcel_outside_tier = None"
    by (simp add: parcel_outside_tier_def)
  have e: "existing_far parcel_in_tier = 1 / 2" "existing_far parcel_outside_tier = 5"
    by (simp_all add: parcel_in_tier_def parcel_outside_tier_def)
  have m: "parcel_outside_tier \<in> set [parcel_in_tier, parcel_outside_tier]"
    by simp
  from utilization_rule
         [of parcel_in_tier 3 parcel_outside_tier 0 "[parcel_in_tier, parcel_outside_tier]"]
       a b e m
  show ?thesis
    by simp
qed

subsection \<open>Transit-tier join\<close>

lemma set_insert_desc: "set (insert_desc x xs) = insert x (set xs)"
  by (induction xs) auto

lemma set_sort_values: "set (sort_values xs) = set xs"
  by (induction xs) (auto simp: set_insert_desc)

lemma sorted_insert_desc:
  "sorted_wrt (\<lambda>a b. permissive_key b \<le> permissive_key a) xs \<Longrightarrow>
   sorted_wrt (\<lambda>a b. permissive_key b \<le> permissive_key a) (insert_desc x xs)"
  by (induction xs) (auto simp: set_insert_desc)

lemma sorted_sort_values:
  "sorted_wrt (\<lambda>a b. permissive_key b \<le> permissive_key a) (sort_values xs)"
  by (induction xs) (auto simp: sorted_insert_desc)

lemma filter_drop_duplicates_seen:
  "filter (\<lambda>r. parcel_id r = p) (drop_duplicates_seen seen xs) =
     (if p \<in> set seen then [] else take 1 (filter (\<lambda>r. parcel_id r = p) xs))"
  by (induction xs arbitrary: seen) auto

lemma filter_drop_duplicates:
  "filter (\<lambda>r. parcel_id r = p) (drop_duplicates xs)
     = take 1 (filter (\<lambda>r. parcel_id r = p) xs)"
  by (simp add: drop_duplicates_def filter_drop_duplicates_seen)

lemma sorted_wrt_filter_keep:
  "sorted_wrt R xs \<Longrightarrow> sorted_wrt R (filter P xs)"
  by (induction xs) auto

lemma permissive_key_le:
  fixes c k :: "('a::linorder) sb79_match"
  shows "permissive_key c \<le> permissive_key k \<longleftrightarrow>
     match_MaxDensity c \<le> match_MaxDensity k
     \<and> (match_MaxDensity c = match_MaxDensity k \<longrightarrow>
          match_FloorAreaRatio c \<le> match_FloorAreaRatio k)"
  unfolding permissive_key_def less_eq_prod_def by (auto simp: less_le)

lemma kept_row_is_head:
  assumes "filter (\<lambda>r. parcel_id r = p) (sort_values joined) = k # rest"
  shows "filter (\<lambda>r. parcel_id r = p) (parcel_sb79 joined) = [k]"
    and "k \<in> set joined" and "parcel_id k = p"
    and "\<And>c. c \<in> set joined \<Longrightarrow> parcel_id c = p
           \<Longrightarrow> permissive_key c \<le> permissive_key k"
proof -
  let ?cands = "filter (\<lambda>r. parcel_id r = p) (sort_values joined)"
  show "filter (\<lambda>r. parcel_id r = p) (parcel_sb79 joined) = [k]"
    by (simp add: parcel_sb79_def filter_drop_duplicates assms)
  have "k \<in> set ?cands"
    by (simp only: assms list.set_intros)
  then show "k \<in> set joined" and "parcel_id k = p"
    by (simp_all add: set_sort_values)
  have srt: "sorted_wrt (\<lambda>a b. permissive_key b \<le> permissive_key a) (k # rest)"
    using sorted_wrt_filter_keep [OF sorted_sort_values, of "\<lambda>r. parcel_id r = p" joined]
    by (simp only: assms)
  fix c
  assume "c \<in> set joined" "parcel_id c = p"
  then have "c \<in> set ?cands"
    by (simp add: set_sort_values)
  then have "c = k \<or> c \<in> set rest"
    by (simp add: assms)
  then show "permissive_key c \<le> permissive_key k"
    using srt by auto
qed

text \<open>
  C5: for every frame of parcel-to-tier join rows and every parcel id that occurs in it
  (each parcel that intersects a tier polygon has one row per intersecting polygon),
  exactly one row with that id remains after sorting and de-duplication. It is one of the
  parcel's rows, no other row of the parcel has a greater density, and among the rows of
  equal density none has a greater FAR, where a missing cell counts below every value;
  so a row without density is kept only if none of the parcel's rows has a density. The
  order of densities and of FARs is the order of the cells' type, the numeric order for
  numeric attributes.
\<close>

theorem tier_dedup_most_permissive:
  assumes "p \<in> parcel_id ` set joined"
  shows "\<exists>k. filter (\<lambda>r. parcel_id r = p) (parcel_sb79 joined) = [k]
           \<and> k \<in> set joined
           \<and> (\<forall>c \<in> set joined. parcel_id c = p \<longrightarrow>
                 match_MaxDensity c \<le> match_MaxDensity k
               \<and> (match_MaxDensity c = match_MaxDensity k \<longrightarrow>
                    match_FloorAreaRatio c \<le> match_FloorAreaRatio k))
           \<and> ((\<exists>c \<in> set joined. parcel_id c = p \<and> match_MaxDensity c \<noteq> None) \<longrightarrow>
                 match_MaxDensity k \<noteq> None)"
proof -
  let ?cands = "filter (\<lambda>r. parcel_id r = p) (sort_values joined)"
  from assms obtain r where "r \<in> set joined" "parcel_id r = p"
    by blast
  then have "r \<in> set ?cands"
    by (simp add: set_sort_values)
  then obtain k rest where c: "?cands = k # rest"
    by (cases ?cands) simp_all
  note h = kept_row_is_head [OF c]
  have lexi: "match_MaxDensity c' \<le> match_MaxDensity k
        \<and> (match_MaxDensity c' = match_MaxDensity k \<longrightarrow>
             match_FloorAreaRatio c' \<le> match_FloorAreaRatio k)"
    if "c' \<in> set joined" "parcel_id c' = p" for c'
    using h(4) [OF that] by (rule permissive_key_le [THEN iffD1])
  have nulls: "match_MaxDensity k \<noteq> None"
    if "c' \<in> set joined" "parcel_id c' = p" "match_MaxDensity c' \<noteq> None" for c'
  proof
    assume "match_MaxDensity k = None"
    with lexi [OF that(1,2)] have "match_MaxDensity c' \<le> None" by simp
    then show False using that(3) by (simp add: less_eq_option_None_is_None)
  qed
  show ?thesis
  proof (intro exI conjI ballI impI)
    show "filter (\<lambda>r. parcel_id r = p) (parcel_sb79 joined) = [k]" by (rule h(1))
    show "k \<in> set joined" by (rule h(2))
  next
    fix c' assume a: "c' \<in> set joined" "parcel_id c' = p"
    show "match_MaxDensity c' \<le> match_MaxDensity k" using lexi [OF a] by simp
    show "match_FloorAreaRatio c' \<le> match_FloorAreaRatio k"
      if "match_MaxDensity c' = match_MaxDensity k"
      using lexi [OF a] that by simp
  next
    assume "\<exists>c \<in> set joined. parcel_id c = p \<and> match_MaxDensity c \<noteq> None"
    then show "match_MaxDensity k \<noteq> None" using nulls by blast
  qed
qed

lemma parcel_sb79_joined_example:
  "parcel_sb79 joined_example =
     [\<lparr>parcel_id = 0, match_TZ = Some ''T1Z2'', match_MaxDensity = Some 120,
       match_FloorAreaRatio = Some 4\<rparr>,
      \<lparr>parcel_id = 1, match_TZ = None, match_MaxDensity = None,
       match_FloorAreaRatio = None\<rparr>]"
  by (simp add: parcel_sb79_def joined_example_def drop_duplicates_def permissive_key_def
      less_prod_def)

theorem tier_dedup_most_permissive_witness:
  "0 \<in> parcel_id ` set joined_example
   \<and> filter (\<lambda>r. parcel_id r = 0) (parcel_sb79 joined_example)
       = [\<lparr>parcel_id = 0, match_TZ = Some ''T1Z2'', match_MaxDensity = Some 120,
           match_FloorAreaRatio = Some 4\<rparr>]
   \<and> (\<exists>k. filter (\<lambda>r. parcel_id r = 0) (parcel_sb79 joined_example) = [k]
          \<and> k \<in> set joined_example
          \<and> (\<forall>c \<in> set joined_example. parcel_id c = 0 \<longrightarrow>
                 match_MaxDensity c \<le> match_MaxDensity k
               \<and> (match_MaxDensity c = match_MaxDensity k \<longrightarrow>
                    match_FloorAreaRatio c \<le> match_FloorAreaRatio k))
          \<and> ((\<exists>c \<in> set joined_example. parcel_id c = 0 \<and> match_MaxDensity c \<noteq> None)
               \<longrightarrow> match_MaxDensity k \<noteq> None))"
proof -
  have h: "0 \<in> parcel_id ` set joined_example"
    by (simp add: joined_example_def)
  have e: "filter (\<lambda>r. parcel_id r = 0) (parcel_sb79 joined_example)
       = [\<lparr>parcel_id = 0, match_TZ = Some ''T1Z2'', match_MaxDensity = Some 120,
           match_FloorAreaRatio = Some 4\<rparr>]"
    by (simp add: parcel_sb79_joined_example)
  from h e tier_dedup_most_permissive [OF h] show ?thesis
    by (intro conjI)
qed

subsection \<open>Building heights\<close>

text \<open>
  C10: if the footprint frame has the column of heights in metres, the \<open>height_m\<close>
  column does not depend on the column of heights in centimetres, whatever it holds and
  whether it exists: every row takes its metres cell read as a number, and a row whose
  metres cell is missing or not numeric takes 6.0, not its centimetres cell over 100.
\<close>

theorem height_fallback_per_column:
  assumes "columns buildings ''hgt_median_m'' = Some m"
  shows "height_m parse
           (buildings\<lparr>columns := (columns buildings)(''hgt_mediancm'' := cm)\<rparr>)
           = height_m parse buildings
       \<and> height_m parse buildings = map (\<lambda>c. fillna 6 (to_numeric_coerce parse c)) m
       \<and> (\<forall>i < length m. to_numeric_coerce parse (m ! i) = None \<longrightarrow>
             height_m parse buildings ! i = 6)"
  using assms by (simp add: height_m_def fillna_def)

theorem height_fallback_per_column_witness:
  "columns footprints_example ''hgt_median_m'' = Some [Number 9, Missing, Text ''n/a'']
   \<and> columns footprints_example ''hgt_mediancm''
       = Some [Number 900, Number 1200, Number 1500]
   \<and> height_m (\<lambda>s. None) footprints_example = [9, 6, 6]
   \<and> height_m (\<lambda>s. None)
        (footprints_example
           \<lparr>columns := (columns footprints_example)(''hgt_mediancm'' := None)\<rparr>)
       = [9, 6, 6]
   \<and> (1::nat) < length [Number 9, Missing, Text ''n/a'']
   \<and> to_numeric_coerce (\<lambda>s. None) ([Number 9, Missing, Text ''n/a''] ! 1) = None
   \<and> height_m (\<lambda>s. None) footprints_example ! 1 = 6
   \<and> (1200 / 100 :: real) \<noteq> 6"
proof -
  have h: "columns footprints_example ''hgt_median_m''
             = Some [Number 9, Missing, Text ''n/a'']"
    by (simp add: footprints_example_def)
  have c: "columns footprints_example ''hgt_mediancm''
             = Some [Number 900, Number 1200, Number 1500]"
    by (simp add: footprints_example_def)
  have n: "to_numeric_coerce (\<lambda>s. None) ([Number 9, Missing, Text ''n/a''] ! 1) = None"
    by (simp add: to_numeric_coerce_def)
  note t = height_fallback_per_column [OF h, of "\<lambda>s. None" None]
  from t have v: "height_m (\<lambda>s. None) footprints_example = [9, 6, 6]"
    by (simp add: fillna_def to_numeric_coerce_def)
  from t v h c n show ?thesis
    by simp
qed

end
